theory Spec2Isabelle
  imports Complex_Main "HOL-Library.Log_Nat"
begin

section \<open>JavaScript values used by the renderer\<close>

subsection \<open>Numbers\<close>

text \<open>
  A JavaScript number is a binary64 value: a finite one, an infinity or \<^verbatim>\<open>NaN\<close>. A
  finite value is modelled by the real it stands for, and every arithmetic operation
  rounds its exact result to the nearest binary64 value, ties to the even mantissa,
  as IEEE 754 prescribes: \<open>round64\<close>. The exponent of the result is that of the exact
  value, at least \<open>-1074\<close> (below the normal range the spacing stays \<open>2\<^sup>-\<^sup>1\<^sup>0\<^sup>7\<^sup>4\<close>), and
  what rounds to \<open>2\<^sup>1\<^sup>0\<^sup>2\<^sup>4\<close> or more is an infinity.

  The coordinates and sizes of the input are finite numbers read from a JSON file;
  they are reals here, and \<open>is_binary64\<close> says of a real that it is a binary64 value.
  The sign of zero is not modelled: every divisor in the source is a positive literal
  or the result of \<^verbatim>\<open>Math.sqrt\<close> or \<^verbatim>\<open>Math.abs\<close>, neither of which is \<open>-0\<close> there, and
  \<open>-0\<close> prints and compares as \<open>0\<close>. \<^verbatim>\<open>Math.sqrt\<close> and \<^verbatim>\<open>x ** 2\<close> are the correctly
  rounded square root and product.
\<close>

datatype number = Fin real | PInf | NInf | NaN

definition inf_of_sign :: "bool \<Rightarrow> number" where
  "inf_of_sign positive = (if positive then PInf else NInf)"

definition round_nearest_even :: "real \<Rightarrow> int" where
  "round_nearest_even y =
     (let f = \<lfloor>y\<rfloor>; r = y - of_int f
      in if r < 1 / 2 then f
         else if 1 / 2 < r then f + 1
         else if even f then f else f + 1)"

definition round64 :: "real \<Rightarrow> number" where
  "round64 x =
     (if x = 0 then Fin 0
      else let a = \<bar>x\<bar>;
               e = max (\<lfloor>log 2 a\<rfloor> - 52) (- 1074);
               v = of_int (round_nearest_even (a / 2 powi e)) * 2 powi e
           in if 2 ^ 1024 \<le> v then inf_of_sign (0 < x) else Fin (sgn x * v))"

definition is_binary64 :: "real \<Rightarrow> bool" where
  "is_binary64 x = (round64 x = Fin x)"

fun jneg :: "number \<Rightarrow> number" where
  "jneg (Fin a) = Fin (- a)"
| "jneg PInf = NInf"
| "jneg NInf = PInf"
| "jneg NaN = NaN"

fun jadd :: "number \<Rightarrow> number \<Rightarrow> number" where
  "jadd (Fin a) (Fin b) = round64 (a + b)"
| "jadd NaN _ = NaN"
| "jadd _ NaN = NaN"
| "jadd PInf NInf = NaN"
| "jadd NInf PInf = NaN"
| "jadd PInf _ = PInf"
| "jadd _ PInf = PInf"
| "jadd NInf _ = NInf"
| "jadd _ NInf = NInf"

definition jsub :: "number \<Rightarrow> number \<Rightarrow> number" where
  "jsub a b = jadd a (jneg b)"

fun jmul :: "number \<Rightarrow> number \<Rightarrow> number" where
  "jmul (Fin a) (Fin b) = round64 (a * b)"
| "jmul NaN _ = NaN"
| "jmul _ NaN = NaN"
| "jmul PInf (Fin b) = (if b = 0 then NaN else inf_of_sign (0 < b))"
| "jmul NInf (Fin b) = (if b = 0 then NaN else inf_of_sign (b < 0))"
| "jmul (Fin a) PInf = (if a = 0 then NaN else inf_of_sign (0 < a))"
| "jmul (Fin a) NInf = (if a = 0 then NaN else inf_of_sign (a < 0))"
| "jmul PInf PInf = PInf"
| "jmul PInf NInf = NInf"
| "jmul NInf PInf = NInf"
| "jmul NInf NInf = PInf"

fun jdiv :: "number \<Rightarrow> number \<Rightarrow> number" where
  "jdiv (Fin a) (Fin b) =
     (if b = 0 then (if a = 0 then NaN else inf_of_sign (0 < a)) else round64 (a / b))"
| "jdiv NaN _ = NaN"
| "jdiv _ NaN = NaN"
| "jdiv (Fin a) PInf = Fin 0"
| "jdiv (Fin a) NInf = Fin 0"
| "jdiv PInf (Fin b) = inf_of_sign (0 \<le> b)"
| "jdiv NInf (Fin b) = inf_of_sign (b < 0)"
| "jdiv PInf PInf = NaN"
| "jdiv PInf NInf = NaN"
| "jdiv NInf PInf = NaN"
| "jdiv NInf NInf = NaN"

fun jabs :: "number \<Rightarrow> number" where
  "jabs (Fin a) = Fin \<bar>a\<bar>"
| "jabs PInf = PInf"
| "jabs NInf = PInf"
| "jabs NaN = NaN"

fun jsqrt :: "number \<Rightarrow> number" where
  "jsqrt (Fin a) = (if a < 0 then NaN else round64 (sqrt a))"
| "jsqrt PInf = PInf"
| "jsqrt NInf = NaN"
| "jsqrt NaN = NaN"

definition jsquare :: "number \<Rightarrow> number" where
  "jsquare a = jmul a a"

text \<open>\<^verbatim>\<open>a < b\<close> and \<^verbatim>\<open>a > b\<close>: false as soon as an operand is \<^verbatim>\<open>NaN\<close>.\<close>

fun jlt :: "number \<Rightarrow> number \<Rightarrow> bool" where
  "jlt (Fin a) (Fin b) = (a < b)"
| "jlt NaN _ = False"
| "jlt _ NaN = False"
| "jlt NInf NInf = False"
| "jlt NInf _ = True"
| "jlt _ NInf = False"
| "jlt PInf _ = False"
| "jlt _ PInf = True"

definition jgt :: "number \<Rightarrow> number \<Rightarrow> bool" where
  "jgt a b = jlt b a"

subsection \<open>Numbers as text\<close>

definition digit_char :: "nat \<Rightarrow> char" where
  "digit_char n = ''0123456789'' ! (n mod 10)"

fun digits10 :: "nat \<Rightarrow> string" where
  "digits10 n =
     (if n < 10 then [digit_char n] else digits10 (n div 10) @ [digit_char (n mod 10)])"

declare digits10.simps [simp del]

definition intToString :: "int \<Rightarrow> string" where
  "intToString i = (if i < 0 then ''-'' @ digits10 (nat (- i)) else digits10 (nat i))"

text \<open>
  \<^verbatim>\<open>Number::toString\<close>, which a template literal applies to an interpolated number.
  An integer below \<open>10\<^sup>2\<^sup>1\<close> in magnitude prints as its decimal digits and the
  special values print as their names. For every other finite value the digits are
  the shortest ones that read back as the same binary64 value; that part is the
  parameter \<open>str\<close> of every function that prints a number.
\<close>

definition numberToString :: "(real \<Rightarrow> string) \<Rightarrow> number \<Rightarrow> string" where
  "numberToString str n =
     (case n of
        NaN \<Rightarrow> ''NaN''
      | PInf \<Rightarrow> ''Infinity''
      | NInf \<Rightarrow> ''-Infinity''
      | Fin r \<Rightarrow> if of_int \<lfloor>r\<rfloor> = r \<and> \<bar>r\<bar> < 10 ^ 21 then intToString \<lfloor>r\<rfloor> else str r)"

definition realToString :: "(real \<Rightarrow> string) \<Rightarrow> real \<Rightarrow> string" where
  "realToString str r = numberToString str (Fin r)"

subsection \<open>The quotient printed by \<^verbatim>\<open>toFixed(2)\<close>\<close>

text \<open>
  \<^verbatim>\<open>(traffic / 1000).toFixed(2)\<close> rounds twice: the division rounds the quotient to
  the nearest binary64 value (ties to even), and \<^verbatim>\<open>toFixed\<close> rounds the exact value
  of that double to two decimals (ties upwards). The first rounding decides the
  digits where the exact quotient ends in a 5 in its third decimal, so it is
  modelled: a finite non-negative double is a pair \<open>(m, e)\<close> standing for
  \<open>m * 2\<^sup>e\<close>, with \<open>m\<close> of 53 bits. Both operands are integers that binary64
  represents exactly, and the quotients lie in the normal range.
\<close>

type_synonym binary64 = "int \<times> int"

definition round_half_even :: "int \<Rightarrow> int \<Rightarrow> int" where
  "round_half_even num den =
     (let fl = num div den; r = num mod den
      in if 2 * r < den then fl
         else if den < 2 * r then fl + 1
         else if even fl then fl else fl + 1)"

definition pow2_le_quot :: "int \<Rightarrow> int \<Rightarrow> int \<Rightarrow> bool" where
  "pow2_le_quot k p q = (if 0 \<le> k then q * 2 ^ nat k \<le> p else q \<le> p * 2 ^ nat (- k))"

definition div_binary64 :: "int \<Rightarrow> int \<Rightarrow> binary64" where
  "div_binary64 p q =
     (if p = 0 then (0, 0)
      else let k0 = bitlen p - bitlen q;
               k = (if pow2_le_quot k0 p q then k0 else k0 - 1);
               e = k - 52
           in (if 0 \<le> e then round_half_even p (q * 2 ^ nat e)
               else round_half_even (p * 2 ^ nat (- e)) q, e))"

definition binary64_value :: "binary64 \<Rightarrow> real" where
  "binary64_value d = (case d of (m, e) \<Rightarrow>
     if 0 \<le> e then of_int m * 2 ^ nat e else of_int m / 2 ^ nat (- e))"

definition fixed2_digits :: "int \<Rightarrow> string" where
  "fixed2_digits n =
     (let ds = (if n = 0 then ''0'' else digits10 (nat n));
          zs = (if length ds \<le> 2 then replicate (3 - length ds) (CHR ''0'') @ ds else ds);
          k = length zs
      in take (k - 2) zs @ ''.'' @ drop (k - 2) zs)"

definition toFixed2 :: "(real \<Rightarrow> string) \<Rightarrow> binary64 \<Rightarrow> string" where
  "toFixed2 str d = (case d of (m, e) \<Rightarrow>
     if (if 0 \<le> e then 10 ^ 21 \<le> m * 2 ^ nat e else 10 ^ 21 * 2 ^ nat (- e) \<le> m)
     then str (binary64_value d)
     else fixed2_digits (if 0 \<le> e then 100 * m * 2 ^ nat e
                         else (200 * m + 2 ^ nat (- e)) div 2 ^ nat (1 - e)))"

subsection \<open>Strings, arrays and sets\<close>

text \<open>The \<^verbatim>\<open>xml-escape\<close> package: the five characters of XML become entities.\<close>

definition xmlescape_char :: "char \<Rightarrow> string" where
  \<open>xmlescape_char c =
     (if c = CHR ''>'' then ''&gt;''
      else if c = CHR ''<'' then ''&lt;''
      else if c = CHR 0x27 then ''&apos;''
      else if c = CHR 0x22 then ''&quot;''
      else if c = CHR ''&'' then ''&amp;''
      else [c])\<close>

definition xmlescape :: "string \<Rightarrow> string" where
  "xmlescape s = concat (map xmlescape_char s)"

fun join :: "string \<Rightarrow> string list \<Rightarrow> string" where
  "join sep [] = []"
| "join sep [x] = x"
| "join sep (x # y # ys) = x @ sep @ join sep (y # ys)"

text \<open>\<^verbatim>\<open>String.prototype.replace\<close> with a string pattern replaces the first occurrence.\<close>

fun replace_first_char :: "char \<Rightarrow> string \<Rightarrow> string \<Rightarrow> string" where
  "replace_first_char c r [] = []"
| "replace_first_char c r (x # xs) = (if x = c then r @ xs else x # replace_first_char c r xs)"

text \<open>
  \<^verbatim>\<open>[... new Set(xs)]\<close>: a Set keeps each value once, in the order of first insertion.
\<close>

definition Set_add :: "'a list \<Rightarrow> 'a \<Rightarrow> 'a list" where
  "Set_add s x = (if x \<in> set s then s else s @ [x])"

definition Set_values :: "'a list \<Rightarrow> 'a list" where
  "Set_values xs = foldl Set_add [] xs"

section \<open>Data model\<close>

text \<open>
  \<^verbatim>\<open>ColorDefinition = Record<number, string>\<close>: bit rates to CSS colours. A property
  name is the decimal form of its integer threshold, so \<^verbatim>\<open>parseInt\<close> of a key gives
  the threshold back and \<^verbatim>\<open>colors[n]\<close> finds the property again; the object is an
  association list, read with \<open>map_of\<close>.
\<close>

type_synonym ColorDefinition = "(int \<times> string) list"

definition DEFAULT_COLORS :: ColorDefinition where
  "DEFAULT_COLORS =
     [(- 1, ''#cccccc''),
      (0, ''#000000''),
      (1000000, ''#0000ff''),
      (10000000, ''#00cccc''),
      (25000000, ''#00ff00''),
      (50000000, ''#cccc00''),
      (75000000, ''#ee7000''),
      (100000000, ''#ff0000'')]"

datatype DeviceType = Switch | Router | Cloud

datatype LabelPosition = Top | Bottom

text \<open>
  Traffic is a bit rate: eight times an integer octet rate, or \<open>-1\<close> for an inactive
  interface; it is an integer that binary64 represents exactly. \<^verbatim>\<open>speed\<close> is the string
  found in the configuration file.
\<close>

record ConnectionData =
  from_x :: real
  from_y :: real
  to_x :: real
  to_y :: real
  speed :: string
  outboundTraffic :: int
  inboundTraffic :: int

record SiteData =
  site_name :: string
  site_render_x :: real
  site_render_y :: real
  site_width :: real
  site_height :: real
  site_label_position :: LabelPosition

record DeviceData =
  device_type :: DeviceType
  device_name :: string
  device_render_x :: real
  device_render_y :: real
  device_label_position :: LabelPosition

record RenderData =
  title :: string
  width :: real
  height :: real
  devices :: "DeviceData list"
  sites :: "SiteData list"
  connections :: "ConnectionData list"
  colors :: ColorDefinition

text \<open>The last field \<^verbatim>\<open>fetchRenderData\<close> fills in: \<^verbatim>\<open>config.colors || DEFAULT_COLORS\<close>.\<close>

definition fetchRenderData_colors :: "ColorDefinition option \<Rightarrow> ColorDefinition" where
  "fetchRenderData_colors config_colors =
     (case config_colors of None \<Rightarrow> DEFAULT_COLORS | Some c \<Rightarrow> c)"

section \<open>Primitive renderers\<close>

definition getArrowMarkerId :: "string \<Rightarrow> string" where
  "getArrowMarkerId color = ''arrow-'' @ replace_first_char (CHR ''#'') [] color"

definition createArrowMarker :: "string \<Rightarrow> string" where
  \<open>createArrowMarker color =
     ''<marker id="'' @ getArrowMarkerId color
     @ ''" viewBox="0 0 10 10" refX="8" refY="5" markerWidth="6" markerHeight="6" markerUnits="strokeWidth" orient="auto-start-reverse" fill="''
     @ color @ ''"><use xlink:href="#arrow-marker"/></marker>''\<close>

definition renderBackground :: "(real \<Rightarrow> string) \<Rightarrow> real \<Rightarrow> real \<Rightarrow> string" where
  \<open>renderBackground str w h =
     ''<rect x="0" y="0" width="'' @ realToString str w @ ''" height="'' @ realToString str h
     @ ''" fill="#f2f2f2" stroke="none"/>''\<close>

definition renderDiagramTitle :: "(real \<Rightarrow> string) \<Rightarrow> string \<Rightarrow> string" where
  \<open>renderDiagramTitle str t =
     (let fontSize = Fin 24
      in ''<text x="50%" y="'' @ numberToString str (jmul fontSize (Fin 2))
         @ ''" text-anchor="middle" font-size="'' @ numberToString str fontSize @ ''">''
         @ xmlescape t @ ''</text>'')\<close>

definition formatTraffic :: "(real \<Rightarrow> string) \<Rightarrow> int \<Rightarrow> string" where
  "formatTraffic str traffic =
     (if traffic < 0 then ''Inactive''
      else if traffic < 100000 then toFixed2 str (div_binary64 traffic 1000) @ '' kbps''
      else if traffic < 100000000 then toFixed2 str (div_binary64 traffic 1000000) @ '' Mbps''
      else toFixed2 str (div_binary64 traffic 1000000000) @ '' Gbps'')"

definition renderTraffic :: "(real \<Rightarrow> string) \<Rightarrow> number \<Rightarrow> number \<Rightarrow> int \<Rightarrow> string" where
  \<open>renderTraffic str x y traffic =
     (let fontSize = Fin 12;
          w = jmul fontSize (Fin 6);
          rect = ''<rect x="'' @ numberToString str (jsub x (jdiv w (Fin 2)))
                 @ ''" y="'' @ numberToString str (jsub y (jmul fontSize (Fin 0.75)))
                 @ ''" width="'' @ numberToString str w
                 @ ''" height="'' @ numberToString str (jmul fontSize (Fin 1.5))
                 @ ''" fill="#ffffff" stroke="#000000" stroke-miterlimit="10"/>'';
          text = ''<text x="'' @ numberToString str x
                 @ ''" y="'' @ numberToString str (jadd y (jdiv fontSize (Fin 2)))
                 @ ''" text-anchor="middle" font-size="'' @ numberToString str fontSize
                 @ ''" fill="#000000" stroke="none">''
                 @ xmlescape (formatTraffic str traffic) @ ''</text>''
      in rect @ ''\<newline>'' @ text)\<close>

definition getStrokeWidth :: "string \<Rightarrow> real" where
  "getStrokeWidth s =
     (if s = ''10M'' then 0.5 else if s = ''100M'' then 1 else if s = ''1G'' then 2
      else if s = ''10G'' then 4 else if s = ''40G'' then 6 else if s = ''100G'' then 8
      else 0)"

subsection \<open>Colour bands\<close>

text \<open>
  \<^verbatim>\<open>a || b\<close> on an optional number: \<open>a\<close> unless it is \<^verbatim>\<open>undefined\<close> or \<open>0\<close>. On an
  optional string with a default: the string unless it is \<^verbatim>\<open>undefined\<close> or empty.
\<close>

definition or_number :: "int option \<Rightarrow> int option \<Rightarrow> int option" where
  "or_number a b = (case a of None \<Rightarrow> b | Some n \<Rightarrow> if n = 0 then b else Some n)"

definition or_string :: "string option \<Rightarrow> string \<Rightarrow> string" where
  "or_string a b = (case a of None \<Rightarrow> b | Some s \<Rightarrow> if s = [] then b else s)"

definition last_element :: "'a list \<Rightarrow> 'a option" where
  "last_element xs = (if xs = [] then None else Some (last xs))"

definition property :: "ColorDefinition \<Rightarrow> int option \<Rightarrow> string option" where
  "property obj key = (case key of None \<Rightarrow> None | Some k \<Rightarrow> map_of obj k)"

definition getStrokeColor :: "int \<Rightarrow> ColorDefinition \<Rightarrow> string" where
  "getStrokeColor traffic cols =
     (let sortedSpeeds = rev (sort (map fst cols));
          speed = List.find (\<lambda>s. s \<le> traffic) sortedSpeeds
      in or_string (property cols (or_number speed (last_element sortedSpeeds))) ''#000000'')"

text \<open>
  The resolver as the specification words it: the colour of the largest threshold
  that is at most the traffic, of the smallest threshold when none is, and black
  for a map without thresholds or without a colour there.
\<close>

definition resolveColor_spec :: "int \<Rightarrow> ColorDefinition \<Rightarrow> string" where
  "resolveColor_spec t bands =
     (let thresholds = map fst bands;
          below = filter (\<lambda>s. s \<le> t) thresholds
      in if thresholds = [] then ''#000000''
         else or_string
                (map_of bands (if below = [] then Min (set thresholds) else Max (set below)))
                ''#000000'')"

section \<open>Link geometry\<close>

text \<open>The local constants of \<^verbatim>\<open>renderConnection\<close>, one definition each.\<close>

definition middleX :: "ConnectionData \<Rightarrow> number" where
  "middleX connection =
     jadd (Fin (from_x connection))
       (jdiv (jsub (Fin (to_x connection)) (Fin (from_x connection))) (Fin 2))"

definition middleY :: "ConnectionData \<Rightarrow> number" where
  "middleY connection =
     jadd (Fin (from_y connection))
       (jdiv (jsub (Fin (to_y connection)) (Fin (from_y connection))) (Fin 2))"

definition spanX :: "ConnectionData \<Rightarrow> number" where
  "spanX connection = jabs (jsub (Fin (to_x connection)) (Fin (from_x connection)))"

definition spanY :: "ConnectionData \<Rightarrow> number" where
  "spanY connection = jabs (jsub (Fin (to_y connection)) (Fin (from_y connection)))"

definition connection_length :: "ConnectionData \<Rightarrow> number" where
  "connection_length connection =
     jsqrt (jadd (jsquare (jsub (Fin (to_x connection)) (Fin (from_x connection))))
                 (jsquare (jsub (Fin (to_y connection)) (Fin (from_y connection)))))"

definition normalizedVectorX :: "ConnectionData \<Rightarrow> number" where
  "normalizedVectorX connection =
     jdiv (jsub (Fin (to_x connection)) (Fin (from_x connection))) (connection_length connection)"

definition normalizedVectorY :: "ConnectionData \<Rightarrow> number" where
  "normalizedVectorY connection =
     jdiv (jsub (Fin (to_y connection)) (Fin (from_y connection))) (connection_length connection)"

definition trafficTextWidth :: number where
  "trafficTextWidth = Fin 72"

record TrafficLabels =
  outboundTrafficLabelX :: number
  outboundTrafficLabelY :: number
  inboundTrafficLabelX :: number
  inboundTrafficLabelY :: number

text \<open>
  The four \<^verbatim>\<open>let\<close> variables of the label anchors: initialised with the default
  offset, then assigned again inside the \<^verbatim>\<open>if\<close>.
\<close>

definition trafficLabels :: "ConnectionData \<Rightarrow> TrafficLabels" where
  "trafficLabels connection =
     (let strokeWidth = Fin (getStrokeWidth (speed connection));
          nx = normalizedVectorX connection;
          ny = normalizedVectorY connection;
          mx = middleX connection;
          my = middleY connection;
          labels = \<lparr>
            outboundTrafficLabelX = jsub mx (jmul nx
              (jadd (jadd (jdiv trafficTextWidth (Fin 2)) (Fin 8)) (jmul strokeWidth (Fin 6)))),
            outboundTrafficLabelY = jsub my (jmul ny
              (jadd (jadd (jdiv trafficTextWidth (Fin 2)) (Fin 8)) (jmul strokeWidth (Fin 6)))),
            inboundTrafficLabelX = jadd mx (jmul nx
              (jadd (jadd (jdiv trafficTextWidth (Fin 2)) (Fin 8)) (jmul strokeWidth (Fin 6)))),
            inboundTrafficLabelY = jadd my (jmul ny
              (jadd (jadd (jdiv trafficTextWidth (Fin 2)) (Fin 8)) (jmul strokeWidth (Fin 6))))\<rparr>
      in if jgt (spanY connection) (Fin 48) \<and> jlt (spanX connection) (Fin 192)
         then (let factor = jdiv (jadd (Fin 12) (jmul strokeWidth (Fin 6))) (jabs ny)
               in labels\<lparr>
                    outboundTrafficLabelX := jsub mx (jmul nx factor),
                    outboundTrafficLabelY := jsub my (jmul ny factor),
                    inboundTrafficLabelX := jadd mx (jmul nx factor),
                    inboundTrafficLabelY := jadd my (jmul ny factor)\<rparr>)
         else labels)"

record ConnectionElements =
  arrowElements :: "string list"
  labelElements :: "string list"
  defsElements :: "string list"

definition arrowPath ::
  "(real \<Rightarrow> string) \<Rightarrow> real \<Rightarrow> real \<Rightarrow> number \<Rightarrow> number \<Rightarrow> string \<Rightarrow> real \<Rightarrow> string \<Rightarrow> string" where
  \<open>arrowPath str x y mx my color strokeWidth markerId =
     ''<path d="M '' @ realToString str x @ '' '' @ realToString str y
     @ '' L '' @ numberToString str mx @ '' '' @ numberToString str my
     @ ''" stroke="'' @ color
     @ ''" stroke-width="'' @ realToString str strokeWidth
     @ ''" marker-end="url(#'' @ markerId @ '')"/>''\<close>

definition renderConnection ::
  "(real \<Rightarrow> string) \<Rightarrow> ConnectionData \<Rightarrow> ColorDefinition \<Rightarrow> ConnectionElements" where
  "renderConnection str connection cols =
     (let strokeWidth = getStrokeWidth (speed connection);
          labels = trafficLabels connection;
          outboundColor = getStrokeColor (outboundTraffic connection) cols;
          inboundColor = getStrokeColor (inboundTraffic connection) cols;
          outboundArrowMarker = createArrowMarker outboundColor;
          inboundArrowMarker = createArrowMarker inboundColor;
          outboundArrowMarkerId = getArrowMarkerId outboundColor;
          inboundArrowMarkerId = getArrowMarkerId inboundColor;
          outboundArrow = arrowPath str (from_x connection) (from_y connection)
            (middleX connection) (middleY connection) outboundColor strokeWidth outboundArrowMarkerId;
          inboundArrow = arrowPath str (to_x connection) (to_y connection)
            (middleX connection) (middleY connection) inboundColor strokeWidth inboundArrowMarkerId;
          outboundLabel = renderTraffic str (outboundTrafficLabelX labels)
            (outboundTrafficLabelY labels) (outboundTraffic connection);
          inboundLabel = renderTraffic str (inboundTrafficLabelX labels)
            (inboundTrafficLabelY labels) (inboundTraffic connection)
      in \<lparr>arrowElements = [outboundArrow, inboundArrow],
          labelElements = [outboundLabel, inboundLabel],
          defsElements = [outboundArrowMarker, inboundArrowMarker]\<rparr>)"

section \<open>Devices, sites and the timestamp\<close>

text \<open>
  The fields of \<^verbatim>\<open>DeviceData\<close> and \<^verbatim>\<open>SiteData\<close> carry a prefix here, since both
  interfaces name theirs \<^verbatim>\<open>name\<close>, \<^verbatim>\<open>render_x\<close>, \<^verbatim>\<open>render_y\<close> and \<^verbatim>\<open>label_position\<close>.
\<close>

definition useIcon :: "(real \<Rightarrow> string) \<Rightarrow> string \<Rightarrow> DeviceData \<Rightarrow> string" where
  \<open>useIcon str icon device =
     ''<use xlink:href="#'' @ icon @ ''" x="'' @ realToString str (device_render_x device)
     @ ''" y="'' @ realToString str (device_render_y device) @ ''"/>''\<close>

definition renderDevice :: "(real \<Rightarrow> string) \<Rightarrow> DeviceData \<Rightarrow> string" where
  \<open>renderDevice str device =
     (let (deviceSvg, deviceHeight) =
            (case device_type device of
               Switch \<Rightarrow> (useIcon str ''switch'' device, Fin 50)
             | Router \<Rightarrow> (useIcon str ''router'' device, Fin 50)
             | Cloud \<Rightarrow> (useIcon str ''cloud'' device, Fin 80));
          labelY = (if device_label_position device = Top
                    then jsub (Fin (device_render_y device))
                           (jadd (jdiv deviceHeight (Fin 2)) (Fin 4))
                    else jadd (Fin (device_render_y device))
                           (jadd (jdiv deviceHeight (Fin 2)) (Fin 20)));
          labelSvg = ''<text x="'' @ realToString str (device_render_x device)
                     @ ''" y="'' @ numberToString str labelY
                     @ ''" text-anchor="middle" font-size="16" fill="#000000" stroke="none">''
                     @ xmlescape (device_name device) @ ''</text>''
      in deviceSvg @ ''\<newline>'' @ labelSvg)\<close>

definition renderSite :: "(real \<Rightarrow> string) \<Rightarrow> SiteData \<Rightarrow> string" where
  \<open>renderSite str site =
     (let siteSvg = ''<rect x="'' @ realToString str (site_render_x site)
                    @ ''" y="'' @ realToString str (site_render_y site)
                    @ ''" width="'' @ realToString str (site_width site)
                    @ ''" height="'' @ realToString str (site_height site)
                    @ ''" rx="16" fill="#ffffff" stroke="#000000" stroke-miterlimit="10"/>'';
          labelY = (if site_label_position site = Top
                    then jadd (Fin (site_render_y site)) (Fin 24)
                    else jsub (jadd (Fin (site_render_y site)) (Fin (site_height site))) (Fin 8));
          labelSvg = ''<text x="''
                     @ numberToString str
                         (jadd (Fin (site_render_x site)) (jdiv (Fin (site_width site)) (Fin 2)))
                     @ ''" y="'' @ numberToString str labelY
                     @ ''" text-anchor="middle" font-size="16" fill="#000000" stroke="none">''
                     @ xmlescape (site_name site) @ ''</text>''
      in siteSvg @ ''\<newline>'' @ labelSvg)\<close>

text \<open>
  \<^verbatim>\<open>.replace(/\..+/, '')\<close> deletes from the first dot that has a character other
  than a line terminator after it, up to the end of that line.
\<close>

definition line_terminator :: "char \<Rightarrow> bool" where
  "line_terminator c = (c = CHR 0x0A \<or> c = CHR 0x0D)"

fun replace_dot_rest :: "string \<Rightarrow> string" where
  "replace_dot_rest [] = []"
| "replace_dot_rest (c # cs) =
     (if c = CHR ''.'' \<and> cs \<noteq> [] \<and> \<not> line_terminator (hd cs)
      then dropWhile (\<lambda>x. \<not> line_terminator x) cs
      else c # replace_dot_rest cs)"

text \<open>
  The clock is the one input of \<^verbatim>\<open>render\<close> that is not in \<^verbatim>\<open>RenderData\<close>:
  \<open>now\<close> is what \<^verbatim>\<open>(new Date()).toISOString()\<close> returns at the call.
\<close>

definition renderDate :: "(real \<Rightarrow> string) \<Rightarrow> string \<Rightarrow> RenderData \<Rightarrow> string" where
  \<open>renderDate str now renderData =
     (let x = jsub (Fin (width renderData)) (Fin 8);
          y = jsub (Fin (height renderData)) (Fin 8);
          date = replace_dot_rest (replace_first_char (CHR ''T'') '' '' now)
      in ''<text x="'' @ numberToString str x @ ''" y="'' @ numberToString str y
         @ ''" text-anchor="end" font-size="12" fill="#000000" stroke="none">''
         @ xmlescape date @ ''</text>'')\<close>

section \<open>Document assembly\<close>

text \<open>The fixed text of the template literal of \<^verbatim>\<open>renderToSvg\<close>, between its interpolations.\<close>

definition svg_text_1 :: string where
  \<open>svg_text_1 =
     ''<!-- Rendered with node-librenms-weathermap -->''
     @ ''\<newline>''
     @ ''<svg xmlns="http://www.w3.org/2000/svg" xmlns:xlink="http://www.w3.org/1999/xlink" viewBox="0 0 ''\<close>

definition svg_text_2 :: string where
  \<open>svg_text_2 =
     '' ''\<close>

definition svg_text_3 :: string where
  \<open>svg_text_3 =
     ''" font-family="sans-serif">''
     @ ''\<newline>''
     @ ''<defs>''
     @ ''\<newline>''
     @ ''  <g id="router" transform="translate(-25, -25)">''
     @ ''\<newline>''
     @ ''    <ellipse cx="25" cy="25" rx="25" ry="25" fill="#fafafa" stroke="none"/>''
     @ ''\<newline>''
     @ ''    <path d="M 38.08 40.38 L 31.77 34.19 L 29.2 36.81 L 27.24 27.37 L 36.75 29.12 L 34.2 31.72 L 40.51 37.9 Z M 23.92 28.37 L 17.74 34.68 L 20.36 37.25 L 10.92 39.21 L 12.67 29.71 L 15.26 32.25 L 21.45 25.95 Z M 12.02 9.57 L 18.33 15.76 L 20.89 13.14 L 22.86 22.58 L 13.35 20.83 L 15.9 18.24 L 9.59 12.05 Z M 25.91 21.51 L 32.1 15.2 L 29.48 12.63 L 38.92 10.67 L 37.17 20.17 L 34.58 17.62 L 28.39 23.94 Z M 25 0 C 11.2 0 0 11.2 0 25 C 0 38.8 11.2 50 25 50 C 38.8 50 50 38.8 50 25 C 50 11.2 38.8 0 25 0 Z M 25 0.63 C 38.46 0.63 49.37 11.54 49.37 25 C 49.37 38.46 38.46 49.37 25 49.37 C 11.54 49.37 0.63 38.46 0.63 25 C 0.63 11.54 11.54 0.63 25 0.63 Z" fill="#005073" stroke="none"/>''
     @ ''\<newline>''
     @ ''  </g>''
     @ ''\<newline>''
     @ ''  <g id="switch" transform="translate(-25, -25)">''
     @ ''\<newline>''
     @ ''    <path d="M 3.07 0 C 1.38 0 0 1.37 0 3.05 L 0 46.95 C 0 48.63 1.38 50 3.07 50 L 46.93 50 C 48.62 50 50 48.63 50 46.95 L 50 3.05 C 50 1.37 48.62 0 46.93 0 Z" fill="#fafafa" stroke="none"/>''
     @ ''\<newline>''
     @ ''    <path d="M 23.38 40.52 L 23.38 36.53 L 12.78 36.53 L 12.78 33.39 L 3.75 38.71 L 12.78 43.96 L 12.78 40.52 Z M 28.32 21.46 L 28.32 17.48 L 17.73 17.48 L 17.73 14.33 L 8.7 19.66 L 17.73 24.9 L 17.73 21.46 Z M 22.38 31.06 L 22.38 27.08 L 32.98 27.08 L 32.98 23.93 L 42 29.26 L 32.98 34.51 L 32.98 31.06 Z M 26.96 12.32 L 26.96 8.34 L 37.55 8.34 L 37.55 5.2 L 46.58 10.52 L 37.55 15.77 L 37.55 12.32 Z M 3.07 0 C 1.38 0 0 1.37 0 3.05 L 0 46.95 C 0 48.63 1.38 50 3.07 50 L 46.93 50 C 48.62 50 50 48.63 50 46.95 L 50 3.05 C 50 1.37 48.62 0 46.93 0 Z M 3.07 1.38 L 46.93 1.38 C 47.88 1.38 48.62 2.11 48.62 3.05 L 48.62 46.95 C 48.62 47.89 47.88 48.62 46.93 48.62 L 3.07 48.62 C 2.12 48.62 1.38 47.89 1.38 46.95 L 1.38 3.05 C 1.38 2.11 2.12 1.38 3.07 1.38 Z" fill="#005073" stroke="none"/>''
     @ ''\<newline>''
     @ ''  </g>''
     @ ''\<newline>''
     @ ''  <g id="cloud" transform="translate(-64, -40)">''
     @ ''\<newline>''
     @ ''    <path d="M 30 20 C 6 20 0 40 19.2 44 C 0 52.8 21.6 72 37.2 64 C 48 80 84 80 96 64 C 120 64 120 48 105 40 C 120 24 96 8 75 16 C 60 4 36 4 30 20 Z" fill="#ffffff" stroke="#000000" stroke-miterlimit="10"/>''
     @ ''\<newline>''
     @ ''  </g>''
     @ ''\<newline>''
     @ ''  <path id="arrow-marker" d="M 0 0 L 10 5 L 0 10 z"/>''
     @ ''\<newline>''
     @ ''  <marker id="arrow" viewBox="0 0 10 10" refX="8" refY="5" markerWidth="6" markerHeight="6" markerUnits="strokeWidth" orient="auto-start-reverse" fill="context-stroke"><use xlink:href="#arrow-marker"/></marker>''
     @ ''\<newline>''
     @ ''  ''\<close>

definition svg_text_4 :: string where
  \<open>svg_text_4 =
     ''\<newline>''
     @ ''</defs>''
     @ ''\<newline>''
     @ ''<title>''\<close>

definition svg_text_5 :: string where
  \<open>svg_text_5 =
     ''</title>''
     @ ''\<newline>''\<close>

definition svg_text_6 :: string where
  \<open>svg_text_6 =
     ''\<newline>''
     @ ''</svg>''\<close>

definition renderToSvg ::
  "(real \<Rightarrow> string) \<Rightarrow> string \<Rightarrow> real \<Rightarrow> real \<Rightarrow> string list \<Rightarrow> string list \<Rightarrow> string" where
  "renderToSvg str t w h elements defsElems =
     (let content = join ''\<newline>'' elements;
          defsContent = join (''\<newline>'' @ ''  '') defsElems
      in svg_text_1
         @ realToString str w
         @ svg_text_2
         @ realToString str h
         @ svg_text_3
         @ defsContent
         @ svg_text_4
         @ xmlescape t
         @ svg_text_5
         @ content
         @ svg_text_6)"

text \<open>
  The arrays \<^verbatim>\<open>render\<close> fills. A \<^verbatim>\<open>for ... of\<close> loop that only pushes onto an array
  leaves there, in order, what each round pushed.
\<close>

definition connectionElements :: "(real \<Rightarrow> string) \<Rightarrow> RenderData \<Rightarrow> ConnectionElements list" where
  "connectionElements str renderData =
     map (\<lambda>connection. renderConnection str connection (colors renderData)) (connections renderData)"

definition render_arrowElements :: "(real \<Rightarrow> string) \<Rightarrow> RenderData \<Rightarrow> string list" where
  "render_arrowElements str renderData = concat (map arrowElements (connectionElements str renderData))"

definition render_labelElements :: "(real \<Rightarrow> string) \<Rightarrow> RenderData \<Rightarrow> string list" where
  "render_labelElements str renderData = concat (map labelElements (connectionElements str renderData))"

definition render_defsElements :: "(real \<Rightarrow> string) \<Rightarrow> RenderData \<Rightarrow> string list" where
  "render_defsElements str renderData = concat (map defsElements (connectionElements str renderData))"

definition render_elements :: "(real \<Rightarrow> string) \<Rightarrow> string \<Rightarrow> RenderData \<Rightarrow> string list" where
  "render_elements str now renderData =
     [renderBackground str (width renderData) (height renderData),
      renderDiagramTitle str (title renderData)]
     @ map (renderSite str) (sites renderData)
     @ render_arrowElements str renderData
     @ render_labelElements str renderData
     @ map (renderDevice str) (devices renderData)
     @ [renderDate str now renderData]"

text \<open>The \<^verbatim>\<open>defs\<close> argument of \<^verbatim>\<open>renderToSvg\<close>: \<^verbatim>\<open>[... new Set(defsElements)]\<close>.\<close>

definition render_defs :: "(real \<Rightarrow> string) \<Rightarrow> RenderData \<Rightarrow> string list" where
  "render_defs str renderData = Set_values (render_defsElements str renderData)"

definition render :: "(real \<Rightarrow> string) \<Rightarrow> string \<Rightarrow> RenderData \<Rightarrow> string" where
  "render str now renderData =
     renderToSvg str (title renderData) (width renderData) (height renderData)
       (render_elements str now renderData) (render_defs str renderData)"

section \<open>Vocabulary of the properties\<close>




text \<open>
  A printer for the closed examples below; none of them prints a number that is not
  an integer, so none of them reaches it.
\<close>

definition integral_digits :: "real \<Rightarrow> string" where
  "integral_digits r = intToString \<lfloor>r\<rfloor>"

text \<open>
  The scenario of the specification: a router at \<open>(100, 100)\<close> and a switch at \<open>(100, 300)\<close>,
  linked at \<^verbatim>\<open>10G\<close>, with the link seen from both ends.
\<close>

definition scenario_connection :: ConnectionData where
  "scenario_connection =
     \<lparr>from_x = 100, from_y = 100, to_x = 100, to_y = 300, speed = ''10G'',
      outboundTraffic = 5000000000, inboundTraffic = 1000000000\<rparr>"

definition scenario_reverse :: ConnectionData where
  "scenario_reverse =
     \<lparr>from_x = 100, from_y = 300, to_x = 100, to_y = 100, speed = ''10G'',
      outboundTraffic = 1000000000, inboundTraffic = 5000000000\<rparr>"

definition scenario_data :: RenderData where
  "scenario_data =
     \<lparr>title = ''Weathermap'', width = 400, height = 400,
      devices =
        [\<lparr>device_type = Router, device_name = ''router'', device_render_x = 100,
          device_render_y = 100, device_label_position = Top\<rparr>,
         \<lparr>device_type = Switch, device_name = ''switch'', device_render_x = 100,
          device_render_y = 300, device_label_position = Bottom\<rparr>],
      sites = [],
      connections = [scenario_connection, scenario_reverse],
      colors = DEFAULT_COLORS\<rparr>"


section \<open>Rounding to binary64\<close>

lemma two_powr_int: "(2::real) powr real_of_int k = 2 powi k"
  by (rule powr_real_of_int') simp_all


lemma floor_log2_upper:
  assumes "0 < a" and "a < 2 powi n"
  shows "\<lfloor>log 2 a\<rfloor> < n"
proof -
  have "a < 2 powr real_of_int n"
    using assms(2) by (simp only: two_powr_int)
  then have "log 2 a < real_of_int n"
    using assms(1) by (simp add: log_less_iff)
  then show ?thesis
    by (simp add: floor_less_iff)
qed

lemma round_nearest_even_int: "round_nearest_even (of_int n) = n"
  by (simp add: round_nearest_even_def)

lemma round64_exact:
  assumes x: "x = of_int m * 2 powi e0" and m: "\<bar>m\<bar> < 2 ^ 53"
    and e0: "- 1074 \<le> e0" "e0 \<le> 971"
  shows "round64 x = Fin x"
proof (cases "m = 0")
  case True
  then show ?thesis
    by (simp add: x round64_def)
next
  case False
  define a where "a = \<bar>x\<bar>"
  define e where "e = max (\<lfloor>log 2 a\<rfloor> - 52) (- 1074)"
  have a: "a = of_int \<bar>m\<bar> * 2 powi e0"
    by (simp add: a_def x abs_mult)
  from False have a0: "0 < a"
    by (simp add: a)
  then have x0: "x \<noteq> 0"
    by (auto simp: a_def)
  have "real_of_int \<bar>m\<bar> < real_of_int (2 ^ 53)"
    using m by (simp only: of_int_less_iff)
  then have "a < 2 ^ 53 * 2 powi e0"
    unfolding a by (intro mult_strict_right_mono) simp_all
  also have "\<dots> = 2 powi (53 + e0)"
    by (simp add: power_int_add)
  finally have upper: "a < 2 powi (53 + e0)" .
  from floor_log2_upper [OF a0 upper] have "\<lfloor>log 2 a\<rfloor> - 52 \<le> e0"
    by simp
  with e0(1) have e: "e \<le> e0"
    by (simp add: e_def)
  define N where "N = \<bar>m\<bar> * 2 ^ nat (e0 - e)"
  have "2 powi e0 = 2 powi (e0 - e) * (2::real) powi e"
    by (simp flip: power_int_add)
  also have "(2::real) powi (e0 - e) = 2 ^ nat (e0 - e)"
    using e by (simp add: power_int_def)
  finally have split: "(2::real) powi e0 = 2 ^ nat (e0 - e) * 2 powi e" .
  have quot: "a / 2 powi e = of_int N"
    unfolding a split by (simp add: N_def)
  have v: "of_int (round_nearest_even (a / 2 powi e)) * 2 powi e = a"
    unfolding quot round_nearest_even_int unfolding a split by (simp add: N_def)
  have "(2::real) powi (53 + e0) \<le> 2 powi 1024"
    using e0(2) by (intro power_int_increasing) simp_all
  with upper have small: "\<not> 2 ^ 1024 \<le> a"
    by simp
  have "sgn x * a = x"
    by (simp add: a_def sgn_real_def abs_if)
  with x0 v small show ?thesis
    unfolding round64_def Let_def a_def [symmetric] e_def [symmetric] by simp
qed

lemma round64_Ints [simp]:
  assumes "x \<in> \<int>" and "\<bar>x\<bar> < 2 ^ 53"
  shows "round64 x = Fin x"
proof -
  from assms(1) obtain m where m: "x = of_int m"
    by (auto elim: Ints_cases)
  with assms(2) have "real_of_int \<bar>m\<bar> < real_of_int (2 ^ 53)"
    by simp
  then have "\<bar>m\<bar> < 2 ^ 53"
    by (simp only: of_int_less_iff)
  with round64_exact [of x m 0] m show ?thesis
    by simp
qed



lemma sorted_DEFAULT_COLORS:
  "rev (sort (map fst DEFAULT_COLORS)) =
     [100000000, 75000000, 50000000, 25000000, 10000000, 1000000, 0, - 1]"
  by (simp add: DEFAULT_COLORS_def)

lemma getStrokeColor_default_eval:
  "getStrokeColor 0 DEFAULT_COLORS = ''#cccccc''"
  "getStrokeColor 500000 DEFAULT_COLORS = ''#cccccc''"
  "getStrokeColor 5000000000 DEFAULT_COLORS = ''#ff0000''"
  "getStrokeColor 1000000000 DEFAULT_COLORS = ''#ff0000''"
  by (simp_all add: getStrokeColor_def sorted_DEFAULT_COLORS or_number_def last_element_def
        property_def or_string_def)
     (simp_all add: DEFAULT_COLORS_def)

lemma resolveColor_spec_default_eval:
  "resolveColor_spec 0 DEFAULT_COLORS = ''#000000''"
  "resolveColor_spec 500000 DEFAULT_COLORS = ''#000000''"
  by (simp_all add: resolveColor_spec_def DEFAULT_COLORS_def or_string_def)

lemma bitlen_eval:
  "bitlen 1000 = 10" "bitlen 1000000 = 20" "bitlen 1000000000 = 30"
  "bitlen 99999 = 17" "bitlen 100000 = 17" "bitlen 100000000 = 27" "bitlen 5000000000 = 33"
  by code_simp+

lemmas formatTraffic_eval_defs =
  formatTraffic_def toFixed2_def div_binary64_def pow2_le_quot_def round_half_even_def
  Let_def fixed2_digits_def digits10.simps digit_char_def bitlen_eval

lemma formatTraffic_scenario:
  "formatTraffic str 5000000000 = ''5.00 Gbps''"
  "formatTraffic str 1000000000 = ''1.00 Gbps''"
  by (simp_all add: formatTraffic_eval_defs)

lemma sqrt_40000: "sqrt 40000 = 200"
  using real_sqrt_abs [of 200] by simp

lemma scenario_labels:
  "trafficLabels \<lparr>from_x = 100, from_y = 100, to_x = 100, to_y = 300, speed = ''10G'',
       outboundTraffic = 5000000000, inboundTraffic = 1000000000\<rparr>
   = \<lparr>outboundTrafficLabelX = Fin 100, outboundTrafficLabelY = Fin 164,
       inboundTrafficLabelX = Fin 100, inboundTrafficLabelY = Fin 236\<rparr>"
  by (simp add: trafficLabels_def getStrokeWidth_def normalizedVectorX_def normalizedVectorY_def
        connection_length_def jsquare_def sqrt_40000 middleX_def middleY_def spanX_def spanY_def
        trafficTextWidth_def jsub_def jgt_def Let_def)

lemma scenario_elements:
  \<open>renderConnection str \<lparr>from_x = 100, from_y = 100, to_x = 100, to_y = 300, speed = ''10G'',
       outboundTraffic = 5000000000, inboundTraffic = 1000000000\<rparr> DEFAULT_COLORS
   = \<lparr>arrowElements =
         [''<path d="M 100 100 L 100 200" stroke="#ff0000" stroke-width="4" marker-end="url(#arrow-ff0000)"/>'',
          ''<path d="M 100 300 L 100 200" stroke="#ff0000" stroke-width="4" marker-end="url(#arrow-ff0000)"/>''],
       labelElements =
         [''<rect x="64" y="155" width="72" height="18" fill="#ffffff" stroke="#000000" stroke-miterlimit="10"/>''
          @ ''\<newline>''
          @ ''<text x="100" y="170" text-anchor="middle" font-size="12" fill="#000000" stroke="none">5.00 Gbps</text>'',
          ''<rect x="64" y="227" width="72" height="18" fill="#ffffff" stroke="#000000" stroke-miterlimit="10"/>''
          @ ''\<newline>''
          @ ''<text x="100" y="242" text-anchor="middle" font-size="12" fill="#000000" stroke="none">1.00 Gbps</text>''],
       defsElements =
         [''<marker id="arrow-ff0000" viewBox="0 0 10 10" refX="8" refY="5" markerWidth="6" markerHeight="6" markerUnits="strokeWidth" orient="auto-start-reverse" fill="#ff0000"><use xlink:href="#arrow-marker"/></marker>'',
          ''<marker id="arrow-ff0000" viewBox="0 0 10 10" refX="8" refY="5" markerWidth="6" markerHeight="6" markerUnits="strokeWidth" orient="auto-start-reverse" fill="#ff0000"><use xlink:href="#arrow-marker"/></marker>'']\<rparr>\<close>
  by (simp add: renderConnection_def scenario_labels getStrokeColor_default_eval
        formatTraffic_scenario Let_def getStrokeWidth_def middleX_def middleY_def
        arrowPath_def renderTraffic_def createArrowMarker_def getArrowMarkerId_def
        realToString_def numberToString_def intToString_def digits10.simps digit_char_def
        jsub_def xmlescape_def xmlescape_char_def)

section \<open>Stroke width\<close>

text \<open>
  C7. The stroke width of each speed of \<^verbatim>\<open>ConnectionSpeed\<close> is the one of the table
  \<open>10M \<rightarrow> 0.5\<close>, \<open>100M \<rightarrow> 1\<close>, \<open>1G \<rightarrow> 2\<close>, \<open>10G \<rightarrow> 4\<close>, \<open>40G \<rightarrow> 6\<close>, \<open>100G \<rightarrow> 8\<close>, and
  every other string gives the width \<open>0\<close>.
\<close>

theorem getStrokeWidth_table:
  "getStrokeWidth ''10M'' = 0.5 \<and> getStrokeWidth ''100M'' = 1 \<and> getStrokeWidth ''1G'' = 2
   \<and> getStrokeWidth ''10G'' = 4 \<and> getStrokeWidth ''40G'' = 6 \<and> getStrokeWidth ''100G'' = 8
   \<and> (\<forall>s. s \<notin> {''10M'', ''100M'', ''1G'', ''10G'', ''40G'', ''100G''} \<longrightarrow> getStrokeWidth s = 0)"
  by (simp add: getStrokeWidth_def)

theorem getStrokeWidth_table_witness:
  "''25G'' \<notin> {''10M'', ''100M'', ''1G'', ''10G'', ''40G'', ''100G''} \<and> getStrokeWidth ''25G'' = 0"
  using getStrokeWidth_table by simp

section \<open>The default colour table\<close>

text \<open>
  C8, as the specification states it, gives the built-in table seven entries. The table
  that \<^verbatim>\<open>fetchRenderData\<close> falls back to has eight.
\<close>

theorem default_colors_not_seven:
  "length (fetchRenderData_colors None) \<noteq> 7"
  by (simp add: fetchRenderData_colors_def DEFAULT_COLORS_def)

text \<open>
  C8, amended. Without a colour configuration the band table is the built-in one, of
  eight entries, whose thresholds are \<open>-1\<close>, \<open>0\<close>, \<open>10\<^sup>6\<close>, \<open>10\<^sup>7\<close>, \<open>2.5 * 10\<^sup>7\<close>,
  \<open>5 * 10\<^sup>7\<close>, \<open>7.5 * 10\<^sup>7\<close> and \<open>10\<^sup>8\<close>.
\<close>

theorem default_colors_table:
  "fetchRenderData_colors None = DEFAULT_COLORS
   \<and> length (fetchRenderData_colors None) = 8
   \<and> map fst (fetchRenderData_colors None) =
       [- 1, 0, 1000000, 10000000, 25000000, 50000000, 75000000, 100000000]"
  by (simp add: fetchRenderData_colors_def DEFAULT_COLORS_def)

section \<open>Colour bands\<close>

text \<open>
  C1 asks for the colour of the largest threshold that is at most the traffic. With
  the built-in table the largest threshold at most \<open>0\<close>, or at most \<open>500000\<close>, is \<open>0\<close>,
  whose colour is black; \<^verbatim>\<open>getStrokeColor\<close> returns the colour of the inactive
  band instead, because \<^verbatim>\<open>speed || ...\<close> takes the threshold \<open>0\<close> that \<^verbatim>\<open>find\<close>
  returned for a missing one.
\<close>

theorem getStrokeColor_zero_threshold:
  "getStrokeColor 0 DEFAULT_COLORS = ''#cccccc''
   \<and> resolveColor_spec 0 DEFAULT_COLORS = ''#000000''
   \<and> getStrokeColor 500000 DEFAULT_COLORS = ''#cccccc''
   \<and> resolveColor_spec 500000 DEFAULT_COLORS = ''#000000''"
  by (simp add: getStrokeColor_default_eval resolveColor_spec_default_eval)

text \<open>
  Apart from that case the code, on a map whose property names are its integer
  thresholds in decimal, is the resolver of the specification. The key that
  \<^verbatim>\<open>getStrokeColor\<close> looks up is the largest threshold that is at most the traffic when
  there is one and it is not \<open>0\<close>, and the smallest threshold otherwise; so the two
  agree unless the largest threshold at most the traffic is \<open>0\<close>.
\<close>

lemma find_descending:
  "sorted (rev zs) \<Longrightarrow>
     List.find P zs = (if \<exists>x \<in> set zs. P x then Some (Max {x \<in> set zs. P x}) else None)"
proof (induction zs)
  case Nil
  then show ?case by simp
next
  case (Cons z zs)
  then have above: "\<forall>y \<in> set zs. y \<le> z" and rest: "sorted (rev zs)"
    by (auto simp: sorted_append)
  show ?case
  proof (cases "P z")
    case True
    have "Max {x \<in> set (z # zs). P x} = z"
    proof (rule Max_eqI)
      show "finite {x \<in> set (z # zs). P x}" by simp
      show "y \<le> z" if "y \<in> {x \<in> set (z # zs). P x}" for y
        using that above by auto
      show "z \<in> {x \<in> set (z # zs). P x}"
        using True by simp
    qed
    with True show ?thesis
      by auto
  next
    case False
    then have "{x \<in> set (z # zs). P x} = {x \<in> set zs. P x}"
      by auto
    with False Cons.IH [OF rest] show ?thesis
      by auto
  qed
qed

lemma hd_sorted_Min:
  "sorted ys \<Longrightarrow> ys \<noteq> [] \<Longrightarrow> hd ys = Min (set ys)"
  by (cases ys) (auto intro!: Min_eqI [symmetric])

lemma sortedSpeeds_find:
  "List.find (\<lambda>s. s \<le> t) (rev (sort ks)) =
     (if \<exists>s \<in> set ks. s \<le> t then Some (Max {s \<in> set ks. s \<le> t}) else None)"
  using find_descending [of "rev (sort ks)" "\<lambda>s. s \<le> t"] by simp

lemma sortedSpeeds_last:
  "last_element (rev (sort ks)) = (if ks = [] then None else Some (Min (set ks)))"
proof (cases "ks = []")
  case True
  then show ?thesis by (simp add: last_element_def)
next
  case False
  then have "sort ks \<noteq> []"
    by (metis length_0_conv length_sort)
  with hd_sorted_Min [of "sort ks"] False show ?thesis
    by (simp add: last_element_def last_rev)
qed

lemma getStrokeColor_key:
  "getStrokeColor t cols =
     (let ks = map fst cols in
      if ks = [] then ''#000000''
      else or_string (map_of cols
             (if (\<exists>s \<in> set ks. s \<le> t) \<and> Max {s \<in> set ks. s \<le> t} \<noteq> 0
              then Max {s \<in> set ks. s \<le> t} else Min (set ks))) ''#000000'')"
proof (cases "cols = []")
  case True
  then show ?thesis
    by (simp add: getStrokeColor_def last_element_def or_number_def property_def or_string_def)
next
  case False
  then show ?thesis
    by (auto simp: getStrokeColor_def Let_def sortedSpeeds_find sortedSpeeds_last or_number_def
          property_def)
qed

lemma resolveColor_spec_key:
  "resolveColor_spec t cols =
     (let ks = map fst cols in
      if ks = [] then ''#000000''
      else or_string (map_of cols
             (if \<exists>s \<in> set ks. s \<le> t then Max {s \<in> set ks. s \<le> t} else Min (set ks)))
             ''#000000'')"
proof -
  have "(filter (\<lambda>s. s \<le> t) (map fst cols) = []) = (\<not> (\<exists>s \<in> set (map fst cols). s \<le> t))"
    by (auto simp: filter_empty_conv)
  moreover have "set (filter (\<lambda>s. s \<le> t) (map fst cols)) = {s \<in> set (map fst cols). s \<le> t}"
    by auto
  ultimately show ?thesis
    unfolding resolveColor_spec_def Let_def by (simp only: if_not_P not_not split: if_splits) auto
qed

lemma getStrokeColor_meets_spec:
  assumes "\<not> ((\<exists>s \<in> set (map fst cols). s \<le> t) \<and> Max {s \<in> set (map fst cols). s \<le> t} = 0)"
  shows "getStrokeColor t cols = resolveColor_spec t cols"
  using assms unfolding getStrokeColor_key resolveColor_spec_key Let_def by auto

section \<open>The end-to-end scenario\<close>

text \<open>
  C2, as the specification states it, colours the inbound arrow \<^verbatim>\<open>#cccc00\<close> and so
  gives the two arrows two colours. An inbound rate of \<open>10\<^sup>9\<close> is above the highest
  threshold, as the outbound rate is.
\<close>

theorem scenario_inbound_color:
  "getStrokeColor 1000000000 DEFAULT_COLORS \<noteq> ''#cccc00''
   \<and> getStrokeColor 5000000000 DEFAULT_COLORS = getStrokeColor 1000000000 DEFAULT_COLORS"
  by (simp add: getStrokeColor_default_eval)

text \<open>
  C2, amended. For the connection from \<open>(100, 100)\<close> to \<open>(100, 300)\<close> at \<^verbatim>\<open>10G\<close> with
  \<open>5 * 10\<^sup>9\<close> bps outbound and \<open>10\<^sup>9\<close> bps inbound, under the built-in colours: the
  stroke width is \<open>4\<close>; the rule for steep links applies (vertical span \<open>200 > 48\<close>,
  horizontal span \<open>0 < 192\<close>) and puts the labels at \<open>(100, 164)\<close> and \<open>(100, 236)\<close>;
  both arrows are \<^verbatim>\<open>#ff0000\<close>, the colour of the band from \<open>10\<^sup>8\<close>; and the labels
  read \<^verbatim>\<open>5.00 Gbps\<close> and \<^verbatim>\<open>1.00 Gbps\<close>.
\<close>

theorem scenario_rendering:
  \<open>getStrokeWidth ''10G'' = 4
   \<and> spanY \<lparr>from_x = 100, from_y = 100, to_x = 100, to_y = 300, speed = ''10G'',
         outboundTraffic = 5000000000, inboundTraffic = 1000000000\<rparr> = Fin 200
   \<and> spanX \<lparr>from_x = 100, from_y = 100, to_x = 100, to_y = 300, speed = ''10G'',
         outboundTraffic = 5000000000, inboundTraffic = 1000000000\<rparr> = Fin 0
   \<and> trafficLabels \<lparr>from_x = 100, from_y = 100, to_x = 100, to_y = 300, speed = ''10G'',
         outboundTraffic = 5000000000, inboundTraffic = 1000000000\<rparr>
       = \<lparr>outboundTrafficLabelX = Fin 100, outboundTrafficLabelY = Fin 164,
          inboundTrafficLabelX = Fin 100, inboundTrafficLabelY = Fin 236\<rparr>
   \<and> getStrokeColor 5000000000 DEFAULT_COLORS = ''#ff0000''
   \<and> getStrokeColor 1000000000 DEFAULT_COLORS = ''#ff0000''
   \<and> formatTraffic str 5000000000 = ''5.00 Gbps''
   \<and> formatTraffic str 1000000000 = ''1.00 Gbps''
   \<and> renderConnection str \<lparr>from_x = 100, from_y = 100, to_x = 100, to_y = 300, speed = ''10G'',
         outboundTraffic = 5000000000, inboundTraffic = 1000000000\<rparr> DEFAULT_COLORS
       = \<lparr>arrowElements =
           [''<path d="M 100 100 L 100 200" stroke="#ff0000" stroke-width="4" marker-end="url(#arrow-ff0000)"/>'',
            ''<path d="M 100 300 L 100 200" stroke="#ff0000" stroke-width="4" marker-end="url(#arrow-ff0000)"/>''],
          labelElements =
           [''<rect x="64" y="155" width="72" height="18" fill="#ffffff" stroke="#000000" stroke-miterlimit="10"/>''
            @ ''\<newline>''
            @ ''<text x="100" y="170" text-anchor="middle" font-size="12" fill="#000000" stroke="none">5.00 Gbps</text>'',
            ''<rect x="64" y="227" width="72" height="18" fill="#ffffff" stroke="#000000" stroke-miterlimit="10"/>''
            @ ''\<newline>''
            @ ''<text x="100" y="242" text-anchor="middle" font-size="12" fill="#000000" stroke="none">1.00 Gbps</text>''],
          defsElements =
           [''<marker id="arrow-ff0000" viewBox="0 0 10 10" refX="8" refY="5" markerWidth="6" markerHeight="6" markerUnits="strokeWidth" orient="auto-start-reverse" fill="#ff0000"><use xlink:href="#arrow-marker"/></marker>'',
            ''<marker id="arrow-ff0000" viewBox="0 0 10 10" refX="8" refY="5" markerWidth="6" markerHeight="6" markerUnits="strokeWidth" orient="auto-start-reverse" fill="#ff0000"><use xlink:href="#arrow-marker"/></marker>'']\<rparr>\<close>
  by (simp add: scenario_elements scenario_labels getStrokeWidth_def spanX_def spanY_def jsub_def
        getStrokeColor_default_eval formatTraffic_scenario)

section \<open>Link geometry: label anchors and degenerate links\<close>

lemma getStrokeColor_inactive_eval:
  "getStrokeColor (- 1) DEFAULT_COLORS = ''#cccccc''"
  by (simp add: getStrokeColor_def sorted_DEFAULT_COLORS or_number_def last_element_def
        property_def or_string_def)
     (simp add: DEFAULT_COLORS_def)







subsection \<open>Links of length zero\<close>

lemma jadd_NaN_right [simp]: "jadd x NaN = NaN"
  by (cases x) simp_all

lemma jsub_NaN_right [simp]: "jsub x NaN = NaN"
  by (simp add: jsub_def)

lemma normalizedVector_degenerate:
  assumes "from_x c = to_x c" and "from_y c = to_y c"
  shows "connection_length c = Fin 0" and "normalizedVectorX c = NaN"
    and "normalizedVectorY c = NaN"
  using assms
  by (simp_all add: normalizedVectorX_def normalizedVectorY_def connection_length_def
        jsquare_def jsub_def)

lemma trafficLabels_degenerate:
  assumes "from_x c = to_x c" and "from_y c = to_y c"
  shows "trafficLabels c = \<lparr>outboundTrafficLabelX = NaN, outboundTrafficLabelY = NaN,
           inboundTrafficLabelX = NaN, inboundTrafficLabelY = NaN\<rparr>"
proof -
  from assms have "spanY c = Fin 0"
    by (simp add: spanY_def jsub_def)
  then show ?thesis
    using assms
    by (simp add: trafficLabels_def normalizedVector_degenerate jsub_def jgt_def Let_def)
qed

lemma middle_degenerate:
  assumes "from_x c = to_x c" and "from_y c = to_y c"
    and "is_binary64 (from_x c)" and "is_binary64 (from_y c)"
  shows "middleX c = Fin (from_x c)" and "middleY c = Fin (from_y c)"
  using assms by (simp_all add: middleX_def middleY_def jsub_def is_binary64_def)

lemma coincident_endpoints:
  assumes "from_x c = to_x c" and "from_y c = to_y c"
    and "is_binary64 (from_x c)" and "is_binary64 (from_y c)"
  shows "arrowElements (renderConnection str c cols) =
        [arrowPath str (from_x c) (from_y c) (Fin (from_x c)) (Fin (from_y c))
           (getStrokeColor (outboundTraffic c) cols) (getStrokeWidth (speed c))
           (getArrowMarkerId (getStrokeColor (outboundTraffic c) cols)),
         arrowPath str (from_x c) (from_y c) (Fin (from_x c)) (Fin (from_y c))
           (getStrokeColor (inboundTraffic c) cols) (getStrokeWidth (speed c))
           (getArrowMarkerId (getStrokeColor (inboundTraffic c) cols))]"
    and "labelElements (renderConnection str c cols) =
        [renderTraffic str NaN NaN (outboundTraffic c), renderTraffic str NaN NaN (inboundTraffic c)]"
  using assms
  by (simp_all add: trafficLabels_degenerate middle_degenerate renderConnection_def Let_def)

text \<open>
  C5 asks that a link whose endpoints coincide has the zero vector for its direction
  and is drawn without error. On the link from \<open>(100, 100)\<close> to \<open>(100, 100)\<close> the
  computation does return, and its two arrow paths run from the shared point to the
  midpoint, which is that point; but the unit vector is \<open>0 / 0\<close>, which is \<^verbatim>\<open>NaN\<close> in both
  components and not zero, the four coordinates of the label anchors are \<^verbatim>\<open>NaN\<close>, and
  \<^verbatim>\<open>renderTraffic\<close> writes them into the document as \<^verbatim>\<open>x="NaN"\<close> and \<^verbatim>\<open>y="NaN"\<close>.
\<close>

theorem coincident_endpoints_nan:
  \<open>normalizedVectorX \<lparr>from_x = 100, from_y = 100, to_x = 100, to_y = 100,
       speed = ''10G'', outboundTraffic = 0, inboundTraffic = - 1\<rparr> = NaN
   \<and> normalizedVectorY \<lparr>from_x = 100, from_y = 100, to_x = 100, to_y = 100,
       speed = ''10G'', outboundTraffic = 0, inboundTraffic = - 1\<rparr> = NaN
   \<and> trafficLabels \<lparr>from_x = 100, from_y = 100, to_x = 100, to_y = 100,
       speed = ''10G'', outboundTraffic = 0, inboundTraffic = - 1\<rparr>
     = \<lparr>outboundTrafficLabelX = NaN, outboundTrafficLabelY = NaN,
           inboundTrafficLabelX = NaN, inboundTrafficLabelY = NaN\<rparr>
   \<and> arrowElements (renderConnection str \<lparr>from_x = 100, from_y = 100, to_x = 100, to_y = 100,
       speed = ''10G'', outboundTraffic = 0, inboundTraffic = - 1\<rparr> DEFAULT_COLORS)
     = [''<path d="M 100 100 L 100 100" stroke="#cccccc" stroke-width="4" marker-end="url(#arrow-cccccc)"/>'',
        ''<path d="M 100 100 L 100 100" stroke="#cccccc" stroke-width="4" marker-end="url(#arrow-cccccc)"/>'']
   \<and> labelElements (renderConnection str \<lparr>from_x = 100, from_y = 100, to_x = 100, to_y = 100,
       speed = ''10G'', outboundTraffic = 0, inboundTraffic = - 1\<rparr> DEFAULT_COLORS)
     = [''<rect x="NaN" y="NaN" width="72" height="18" fill="#ffffff" stroke="#000000" stroke-miterlimit="10"/>''
        @ ''\<newline>''
        @ ''<text x="NaN" y="NaN" text-anchor="middle" font-size="12" fill="#000000" stroke="none">0.00 kbps</text>'',
        ''<rect x="NaN" y="NaN" width="72" height="18" fill="#ffffff" stroke="#000000" stroke-miterlimit="10"/>''
        @ ''\<newline>''
        @ ''<text x="NaN" y="NaN" text-anchor="middle" font-size="12" fill="#000000" stroke="none">Inactive</text>'']\<close>
proof -
  define c :: ConnectionData where "c = \<lparr>from_x = 100, from_y = 100, to_x = 100, to_y = 100,
       speed = ''10G'', outboundTraffic = 0, inboundTraffic = - 1\<rparr>"
  have same: "from_x c = to_x c" "from_y c = to_y c"
    and exact: "is_binary64 (from_x c)" "is_binary64 (from_y c)"
    by (simp_all add: c_def is_binary64_def)
  have "normalizedVectorX c = NaN" "normalizedVectorY c = NaN"
    using same by (simp_all add: normalizedVector_degenerate)
  moreover have "trafficLabels c = \<lparr>outboundTrafficLabelX = NaN, outboundTrafficLabelY = NaN,
           inboundTrafficLabelX = NaN, inboundTrafficLabelY = NaN\<rparr>"
    using same by (rule trafficLabels_degenerate)
  moreover have \<open>arrowElements (renderConnection str c DEFAULT_COLORS)
     = [''<path d="M 100 100 L 100 100" stroke="#cccccc" stroke-width="4" marker-end="url(#arrow-cccccc)"/>'',
        ''<path d="M 100 100 L 100 100" stroke="#cccccc" stroke-width="4" marker-end="url(#arrow-cccccc)"/>'']\<close>
    unfolding coincident_endpoints(1) [OF same exact]
    by (simp add: c_def getStrokeColor_default_eval getStrokeColor_inactive_eval getStrokeWidth_def
          arrowPath_def getArrowMarkerId_def realToString_def numberToString_def intToString_def
          digits10.simps digit_char_def)
  moreover have \<open>labelElements (renderConnection str c DEFAULT_COLORS)
     = [''<rect x="NaN" y="NaN" width="72" height="18" fill="#ffffff" stroke="#000000" stroke-miterlimit="10"/>''
        @ ''\<newline>''
        @ ''<text x="NaN" y="NaN" text-anchor="middle" font-size="12" fill="#000000" stroke="none">0.00 kbps</text>'',
        ''<rect x="NaN" y="NaN" width="72" height="18" fill="#ffffff" stroke="#000000" stroke-miterlimit="10"/>''
        @ ''\<newline>''
        @ ''<text x="NaN" y="NaN" text-anchor="middle" font-size="12" fill="#000000" stroke="none">Inactive</text>'']\<close>
    unfolding coincident_endpoints(2) [OF same exact]
    by (simp add: c_def renderTraffic_def numberToString_def intToString_def digits10.simps
          digit_char_def jsub_def xmlescape_def xmlescape_char_def formatTraffic_def toFixed2_def
          div_binary64_def fixed2_digits_def Let_def)
  ultimately show ?thesis
    unfolding c_def by (intro conjI)
qed

section \<open>The assembled document\<close>

lemma set_foldl_Set_add: "set (foldl Set_add acc xs) = set acc \<union> set xs"
  by (induction xs arbitrary: acc) (auto simp: Set_add_def)

lemma distinct_foldl_Set_add: "distinct acc \<Longrightarrow> distinct (foldl Set_add acc xs)"
  by (induction xs arbitrary: acc) (auto simp: Set_add_def)

lemma set_Set_values: "set (Set_values xs) = set xs"
  by (simp add: Set_values_def set_foldl_Set_add)

lemma distinct_Set_values: "distinct (Set_values xs)"
  by (simp add: Set_values_def distinct_foldl_Set_add)

lemma count_list_distinct: "distinct ys \<Longrightarrow> x \<in> set ys \<Longrightarrow> count_list ys x = 1"
  by (induction ys) auto

lemma count_list_Set_values: "x \<in> set xs \<Longrightarrow> count_list (Set_values xs) x = 1"
  by (simp add: count_list_distinct distinct_Set_values set_Set_values)

lemma defsElements_renderConnection:
  "defsElements (renderConnection str c cols) =
     [createArrowMarker (getStrokeColor (outboundTraffic c) cols),
      createArrowMarker (getStrokeColor (inboundTraffic c) cols)]"
  by (simp add: renderConnection_def Let_def)

lemma arrowElements_renderConnection:
  "arrowElements (renderConnection str c cols) =
     [arrowPath str (from_x c) (from_y c) (middleX c) (middleY c)
        (getStrokeColor (outboundTraffic c) cols) (getStrokeWidth (speed c))
        (getArrowMarkerId (getStrokeColor (outboundTraffic c) cols)),
      arrowPath str (to_x c) (to_y c) (middleX c) (middleY c)
        (getStrokeColor (inboundTraffic c) cols) (getStrokeWidth (speed c))
        (getArrowMarkerId (getStrokeColor (inboundTraffic c) cols))]"
  by (simp add: renderConnection_def Let_def)

lemma set_render_defsElements:
  "set (render_defsElements str d) =
     (\<Union>c \<in> set (connections d).
        {createArrowMarker (getStrokeColor (outboundTraffic c) (colors d)),
         createArrowMarker (getStrokeColor (inboundTraffic c) (colors d))})"
  by (auto simp: render_defsElements_def connectionElements_def defsElements_renderConnection)

lemma set_render_defs:
  "set (render_defs str d) =
     (\<Union>c \<in> set (connections d).
        {createArrowMarker (getStrokeColor (outboundTraffic c) (colors d)),
         createArrowMarker (getStrokeColor (inboundTraffic c) (colors d))})"
  by (simp add: render_defs_def set_Set_values set_render_defsElements)

lemma render_document:
  "render str now d =
     svg_text_1 @ realToString str (width d) @ svg_text_2 @ realToString str (height d)
     @ svg_text_3 @ join (''\<newline>'' @ ''  '') (render_defs str d)
     @ svg_text_4 @ xmlescape (title d)
     @ svg_text_5 @ join ''\<newline>'' (render_elements str now d) @ svg_text_6"
  by (simp add: render_def renderToSvg_def Let_def)

lemma scenario_data_defsElements:
  "render_defsElements str scenario_data =
     [createArrowMarker ''#ff0000'', createArrowMarker ''#ff0000'',
      createArrowMarker ''#ff0000'', createArrowMarker ''#ff0000'']"
  by (simp add: render_defsElements_def connectionElements_def scenario_data_def
        defsElements_renderConnection scenario_connection_def scenario_reverse_def
        getStrokeColor_default_eval)

lemma scenario_data_defs:
  "render_defs str scenario_data = [createArrowMarker ''#ff0000'']"
  by (simp add: render_defs_def scenario_data_defsElements Set_values_def Set_add_def)

lemma scenario_data_arrowElements:
  "render_arrowElements str scenario_data =
     [arrowPath str 100 100 (Fin 100) (Fin 200) ''#ff0000'' 4 (getArrowMarkerId ''#ff0000''),
      arrowPath str 100 300 (Fin 100) (Fin 200) ''#ff0000'' 4 (getArrowMarkerId ''#ff0000''),
      arrowPath str 100 300 (Fin 100) (Fin 200) ''#ff0000'' 4 (getArrowMarkerId ''#ff0000''),
      arrowPath str 100 100 (Fin 100) (Fin 200) ''#ff0000'' 4 (getArrowMarkerId ''#ff0000'')]"
  by (simp add: render_arrowElements_def connectionElements_def scenario_data_def
        arrowElements_renderConnection scenario_connection_def scenario_reverse_def
        getStrokeColor_default_eval middleX_def middleY_def jsub_def getStrokeWidth_def)

text \<open>
  C6. The marker definitions of the \<^verbatim>\<open>defs\<close> block, which the document holds between
  its fixed definitions and \<^verbatim>\<open></defs>\<close>, are pairwise different; the marker of the
  colour of each arrow of each connection is among them exactly once, however many
  arrows have that colour; and there is no other.
\<close>

theorem marker_definitions_deduplicated:
  "distinct (render_defs str d)
   \<and> (\<forall>c \<in> set (connections d).
        count_list (render_defs str d)
          (createArrowMarker (getStrokeColor (outboundTraffic c) (colors d))) = 1
        \<and> count_list (render_defs str d)
          (createArrowMarker (getStrokeColor (inboundTraffic c) (colors d))) = 1)
   \<and> (\<forall>m \<in> set (render_defs str d). \<exists>c \<in> set (connections d).
        m = createArrowMarker (getStrokeColor (outboundTraffic c) (colors d))
        \<or> m = createArrowMarker (getStrokeColor (inboundTraffic c) (colors d)))
   \<and> render str now d =
        svg_text_1 @ realToString str (width d) @ svg_text_2 @ realToString str (height d)
        @ svg_text_3 @ join (''\<newline>'' @ ''  '') (render_defs str d)
        @ svg_text_4 @ xmlescape (title d)
        @ svg_text_5 @ join ''\<newline>'' (render_elements str now d) @ svg_text_6"
proof (intro conjI ballI)
  show "distinct (render_defs str d)"
    by (simp add: render_defs_def distinct_Set_values)
next
  fix c assume c: "c \<in> set (connections d)"
  then have "createArrowMarker (getStrokeColor (outboundTraffic c) (colors d))
      \<in> set (render_defsElements str d)"
    unfolding set_render_defsElements by blast
  then show "count_list (render_defs str d)
      (createArrowMarker (getStrokeColor (outboundTraffic c) (colors d))) = 1"
    by (simp add: render_defs_def count_list_Set_values)
  from c have "createArrowMarker (getStrokeColor (inboundTraffic c) (colors d))
      \<in> set (render_defsElements str d)"
    unfolding set_render_defsElements by blast
  then show "count_list (render_defs str d)
      (createArrowMarker (getStrokeColor (inboundTraffic c) (colors d))) = 1"
    by (simp add: render_defs_def count_list_Set_values)
next
  fix m assume "m \<in> set (render_defs str d)"
  then show "\<exists>c \<in> set (connections d).
        m = createArrowMarker (getStrokeColor (outboundTraffic c) (colors d))
        \<or> m = createArrowMarker (getStrokeColor (inboundTraffic c) (colors d))"
    unfolding set_render_defs by blast
next
  show "render str now d =
        svg_text_1 @ realToString str (width d) @ svg_text_2 @ realToString str (height d)
        @ svg_text_3 @ join (''\<newline>'' @ ''  '') (render_defs str d)
        @ svg_text_4 @ xmlescape (title d)
        @ svg_text_5 @ join ''\<newline>'' (render_elements str now d) @ svg_text_6"
    by (rule render_document)
qed

theorem marker_definitions_deduplicated_witness:
  "length (render_defsElements integral_digits scenario_data) = 4
   \<and> render_defs integral_digits scenario_data = [createArrowMarker ''#ff0000'']
   \<and> count_list (render_defs integral_digits scenario_data) (createArrowMarker ''#ff0000'') = 1"
  using marker_definitions_deduplicated [of integral_digits scenario_data]
  by (simp add: scenario_data_defsElements scenario_data_defs)

lemma join_snoc: "xs \<noteq> [] \<Longrightarrow> join sep (xs @ [x]) = join sep xs @ sep @ x"
  by (induction sep xs rule: join.induct) auto

lemma render_elements_snoc:
  "render_elements str now d =
     ([renderBackground str (width d) (height d), renderDiagramTitle str (title d)]
      @ map (renderSite str) (sites d) @ render_arrowElements str d @ render_labelElements str d
      @ map (renderDevice str) (devices d))
     @ [renderDate str now d]"
  by (simp add: render_elements_def)

lemma renderDate_text:
  \<open>renderDate str now d =
     ''<text x="'' @ numberToString str (jsub (Fin (width d)) (Fin 8))
     @ ''" y="'' @ numberToString str (jsub (Fin (height d)) (Fin 8))
     @ ''" text-anchor="end" font-size="12" fill="#000000" stroke="none">''
     @ xmlescape (replace_dot_rest (replace_first_char (CHR ''T'') '' '' now)) @ ''</text>''\<close>
  by (simp add: renderDate_def Let_def)

text \<open>
  C9. The text \<^verbatim>\<open>render\<close> returns is the same at every reading of the clock, apart
  from the timestamp element: it is a prefix and a suffix that the \<^verbatim>\<open>RenderData\<close>
  determines, around that element, and within the element only the date varies.
\<close>

theorem render_clock_only_in_timestamp:
  "\<exists>pre post open_tag.
     (\<forall>now. render str now d = pre @ renderDate str now d @ post)
     \<and> (\<forall>now. renderDate str now d =
           open_tag @ xmlescape (replace_dot_rest (replace_first_char (CHR ''T'') '' '' now))
           @ ''</text>'')"
proof -
  define els where "els =
     [renderBackground str (width d) (height d), renderDiagramTitle str (title d)]
      @ map (renderSite str) (sites d) @ render_arrowElements str d @ render_labelElements str d
      @ map (renderDevice str) (devices d)"
  define pre where "pre =
     svg_text_1 @ realToString str (width d) @ svg_text_2 @ realToString str (height d)
     @ svg_text_3 @ join (''\<newline>'' @ ''  '') (render_defs str d)
     @ svg_text_4 @ xmlescape (title d)
     @ svg_text_5 @ join ''\<newline>'' els @ ''\<newline>''"
  have nonempty: "els \<noteq> []"
    by (simp add: els_def)
  have "render str now d = pre @ renderDate str now d @ svg_text_6" for now
  proof -
    have "render_elements str now d = els @ [renderDate str now d]"
      by (simp add: render_elements_snoc els_def)
    then have "join ''\<newline>'' (render_elements str now d)
        = join ''\<newline>'' els @ ''\<newline>'' @ renderDate str now d"
      using nonempty by (simp add: join_snoc)
    then show ?thesis
      by (simp add: render_document pre_def)
  qed
  then have whole: "\<forall>now. render str now d = pre @ renderDate str now d @ svg_text_6"
    by blast
  have element: "\<exists>open_tag. \<forall>now. renderDate str now d =
      open_tag @ xmlescape (replace_dot_rest (replace_first_char (CHR ''T'') '' '' now))
      @ ''</text>''"
    unfolding renderDate_text by (metis append.assoc)
  from whole element show ?thesis
    by blast
qed

text \<open>
  C10. Every arrow path that \<^verbatim>\<open>render\<close> produces ends in a \<^verbatim>\<open>marker-end\<close> that refers
  to the marker id of the arrow's colour, and the marker created for that colour,
  whose \<^verbatim>\<open>id\<close> is that very id, is among the marker definitions. The document that
  \<^verbatim>\<open>render\<close> returns holds exactly these definitions in its \<^verbatim>\<open>defs\<close> block, after the
  fixed ones and before \<^verbatim>\<open></defs>\<close>, and these arrow paths among its elements.
\<close>

theorem marker_references_defined:
  \<open>(\<forall>a \<in> set (render_arrowElements str d).
      \<exists>x y mx my color strokeWidth.
        a = arrowPath str x y mx my color strokeWidth (getArrowMarkerId color)
        \<and> createArrowMarker color \<in> set (render_defs str d))
   \<and> (\<forall>x y mx my color strokeWidth markerId.
        \<exists>attributes. arrowPath str x y mx my color strokeWidth markerId =
          attributes @ ''" marker-end="url(#'' @ markerId @ '')"/>'')
   \<and> (\<forall>color. \<exists>attributes. createArrowMarker color =
          ''<marker id="'' @ getArrowMarkerId color @ ''"'' @ attributes)
   \<and> set (render_arrowElements str d) \<subseteq> set (render_elements str now d)
   \<and> render str now d =
        svg_text_1 @ realToString str (width d) @ svg_text_2 @ realToString str (height d)
        @ svg_text_3 @ join (''\<newline>'' @ ''  '') (render_defs str d)
        @ svg_text_4 @ xmlescape (title d)
        @ svg_text_5 @ join ''\<newline>'' (render_elements str now d) @ svg_text_6\<close>
proof (intro conjI ballI allI)
  fix a assume "a \<in> set (render_arrowElements str d)"
  then obtain c where c: "c \<in> set (connections d)"
    and a: "a \<in> set (arrowElements (renderConnection str c (colors d)))"
    by (auto simp: render_arrowElements_def connectionElements_def)
  from c have defs:
    "createArrowMarker (getStrokeColor (outboundTraffic c) (colors d)) \<in> set (render_defs str d)"
    "createArrowMarker (getStrokeColor (inboundTraffic c) (colors d)) \<in> set (render_defs str d)"
    unfolding set_render_defs by blast+
  from a consider
      "a = arrowPath str (from_x c) (from_y c) (middleX c) (middleY c)
        (getStrokeColor (outboundTraffic c) (colors d)) (getStrokeWidth (speed c))
        (getArrowMarkerId (getStrokeColor (outboundTraffic c) (colors d)))"
    | "a = arrowPath str (to_x c) (to_y c) (middleX c) (middleY c)
        (getStrokeColor (inboundTraffic c) (colors d)) (getStrokeWidth (speed c))
        (getArrowMarkerId (getStrokeColor (inboundTraffic c) (colors d)))"
    by (auto simp: arrowElements_renderConnection)
  then show "\<exists>x y mx my color strokeWidth.
        a = arrowPath str x y mx my color strokeWidth (getArrowMarkerId color)
        \<and> createArrowMarker color \<in> set (render_defs str d)"
    using defs by cases blast+
next
  fix x y mx my color strokeWidth markerId
  show \<open>\<exists>attributes. arrowPath str x y mx my color strokeWidth markerId =
          attributes @ ''" marker-end="url(#'' @ markerId @ '')"/>''\<close>
    unfolding arrowPath_def by (metis append.assoc)
next
  fix color
  show \<open>\<exists>attributes. createArrowMarker color =
          ''<marker id="'' @ getArrowMarkerId color @ ''"'' @ attributes\<close>
    by (simp add: createArrowMarker_def)
next
  show "set (render_arrowElements str d) \<subseteq> set (render_elements str now d)"
    by (auto simp: render_elements_def)
next
  show "render str now d =
        svg_text_1 @ realToString str (width d) @ svg_text_2 @ realToString str (height d)
        @ svg_text_3 @ join (''\<newline>'' @ ''  '') (render_defs str d)
        @ svg_text_4 @ xmlescape (title d)
        @ svg_text_5 @ join ''\<newline>'' (render_elements str now d) @ svg_text_6"
    by (rule render_document)
qed


theorem marker_references_defined_witness:
  "arrowPath integral_digits 100 100 (Fin 100) (Fin 200) ''#ff0000'' 4 (getArrowMarkerId ''#ff0000'')
     \<in> set (render_arrowElements integral_digits scenario_data)
   \<and> (\<exists>x y mx my color strokeWidth.
        arrowPath integral_digits 100 100 (Fin 100) (Fin 200) ''#ff0000'' 4 (getArrowMarkerId ''#ff0000'')
          = arrowPath integral_digits x y mx my color strokeWidth (getArrowMarkerId color)
        \<and> createArrowMarker color \<in> set (render_defs integral_digits scenario_data))"
proof -
  have mem: "arrowPath integral_digits 100 100 (Fin 100) (Fin 200) ''#ff0000'' 4 (getArrowMarkerId ''#ff0000'')
     \<in> set (render_arrowElements integral_digits scenario_data)"
    by (simp add: scenario_data_arrowElements)
  have every: "\<forall>a \<in> set (render_arrowElements integral_digits scenario_data).
      \<exists>x y mx my color strokeWidth.
        a = arrowPath integral_digits x y mx my color strokeWidth (getArrowMarkerId color)
        \<and> createArrowMarker color \<in> set (render_defs integral_digits scenario_data)"
    using marker_references_defined [of integral_digits scenario_data] by (rule conjunct1)
  from mem bspec [OF every mem] show ?thesis
    by (rule conjI)
qed

section \<open>Traffic labels\<close>

subsection \<open>The quotient as a binary64 value\<close>














subsection \<open>Rounding to hundredths\<close>









subsection \<open>The label text\<close>




















end
